theory Spec2Isabelle
  imports Complex_Main "HOL-Library.AList"
begin

section \<open>Errors\<close>

text \<open>
  The Python exceptions that the modelled functions raise, as values. A function that can
  raise returns \<open>error + 'a\<close>, with \<open>Inl\<close> for the exception.
\<close>

datatype error = ValueError | IndexError | OverflowError | ApiError | ConfigurationError

section \<open>utils.py: URLs, file names and directories\<close>

text \<open>
  The data types whose URL and directory carry an interval: the literal list of
  \<^verbatim>\<open>build_download_url\<close> and \<^verbatim>\<open>download_symbol_data\<close>.
\<close>

definition interval_data_types :: "string list" where
  "interval_data_types =
     [''indexPriceKlines'', ''klines'', ''markPriceKlines'', ''premiumIndexKlines'']"

text \<open>
  \<^verbatim>\<open>build_download_url\<close>: the optional \<^verbatim>\<open>interval\<close> argument (default
  \<^verbatim>\<open>None\<close>) is a \<open>string option\<close>; the \<^verbatim>\<open>ValueError\<close> is \<open>Inl ValueError\<close>.
\<close>

definition build_download_url ::
  "string \<Rightarrow> string \<Rightarrow> string \<Rightarrow> string \<Rightarrow> string option \<Rightarrow> error + string" where
  "build_download_url base_url data_type symbol date interval =
     (if data_type \<in> set interval_data_types then
        (case interval of
           None \<Rightarrow> Inl ValueError
         | Some iv \<Rightarrow>
             Inr (base_url @ data_type @ ''/'' @ symbol @ ''/'' @ iv @ ''/''
                  @ symbol @ ''-'' @ iv @ ''-'' @ date @ ''.zip''))
      else
        Inr (base_url @ data_type @ ''/'' @ symbol @ ''/''
             @ symbol @ ''-'' @ data_type @ ''-'' @ date @ ''.zip''))"

text \<open>
  Python's truth value of an optional string (\<^verbatim>\<open>if interval:\<close>): \<^verbatim>\<open>None\<close> and the
  empty string are false.
\<close>

fun truthy :: "string option \<Rightarrow> bool" where
  "truthy None = False"
| "truthy (Some s) = (s \<noteq> [])"

definition get_output_filename ::
  "string \<Rightarrow> string \<Rightarrow> string \<Rightarrow> string option \<Rightarrow> string \<Rightarrow> string" where
  "get_output_filename symbol data_type date interval extension =
     (if truthy interval then
        symbol @ ''-'' @ data_type @ ''-'' @ the interval @ ''-'' @ date @ ''.'' @ extension
      else
        symbol @ ''-'' @ data_type @ ''-'' @ date @ ''.'' @ extension)"

text \<open>
  \<^verbatim>\<open>os.path.join\<close> on POSIX: a component that starts with the separator replaces what
  came before; otherwise it is appended, with a separator unless the path so far is empty
  or already ends with one.
\<close>

definition path_join2 :: "string \<Rightarrow> string \<Rightarrow> string" where
  "path_join2 a b =
     (if b \<noteq> [] \<and> hd b = CHR ''/'' then b
      else if a = [] \<or> last a = CHR ''/'' then a @ b
      else a @ ''/'' @ b)"

definition path_join :: "string \<Rightarrow> string list \<Rightarrow> string" where
  "path_join a ps = foldl path_join2 a ps"

definition get_file_directory ::
  "string \<Rightarrow> string \<Rightarrow> string option \<Rightarrow> string \<Rightarrow> string" where
  "get_file_directory data_type symbol interval base_dir =
     (if truthy interval then path_join base_dir [data_type, symbol, the interval]
      else path_join base_dir [data_type, symbol])"

text \<open>
  The URL pattern as the specification words it, for comparison with the code:
  \<^verbatim>\<open>{base_url}{data_type}/{symbol}[/{interval}]/{symbol}-[{interval}-]{data_type}-{date}.zip\<close>,
  the bracketed parts present when the task has an interval.
\<close>

definition spec_download_url ::
  "string \<Rightarrow> string \<Rightarrow> string \<Rightarrow> string \<Rightarrow> string option \<Rightarrow> string" where
  "spec_download_url base_url data_type symbol date interval =
     base_url @ data_type @ ''/'' @ symbol
     @ (case interval of None \<Rightarrow> [] | Some iv \<Rightarrow> ''/'' @ iv)
     @ ''/'' @ symbol @ ''-''
     @ (case interval of None \<Rightarrow> [] | Some iv \<Rightarrow> iv @ ''-'')
     @ data_type @ ''-'' @ date @ ''.zip''"

section \<open>The file system\<close>

text \<open>
  A file is its bytes and whether it may be opened for reading. The file system maps a
  path to the file there; directories are implicit, so \<^verbatim>\<open>ensure_directory_exists\<close>
  changes nothing in the model. It holds the data files (archives and extracted files),
  not the log files.
\<close>

record disk_file =
  data :: string
  readable :: bool

type_synonym filesystem = "string \<rightharpoonup> disk_file"

text \<open>
  Whether a byte sequence decodes as UTF-8 (\<^verbatim>\<open>open(..., encoding='utf-8')\<close> raises
  \<^verbatim>\<open>UnicodeDecodeError\<close> otherwise): the well-formed byte sequences of the Unicode
  standard, without overlong forms and surrogates.
\<close>

definition cont_byte :: "nat \<Rightarrow> bool" where
  "cont_byte b = (128 \<le> b \<and> b \<le> 191)"

fun utf8_valid :: "nat list \<Rightarrow> bool" where
  "utf8_valid [] = True"
| "utf8_valid (b # bs) =
     (if b < 128 then utf8_valid bs
      else if 194 \<le> b \<and> b \<le> 223 then
        (case bs of c1 # r \<Rightarrow> cont_byte c1 \<and> utf8_valid r | _ \<Rightarrow> False)
      else if 224 \<le> b \<and> b \<le> 239 then
        (case bs of
           c1 # c2 # r \<Rightarrow>
             (if b = 224 then 160 \<le> c1 \<and> c1 \<le> 191
              else if b = 237 then 128 \<le> c1 \<and> c1 \<le> 159
              else cont_byte c1)
             \<and> cont_byte c2 \<and> utf8_valid r
         | _ \<Rightarrow> False)
      else if 240 \<le> b \<and> b \<le> 244 then
        (case bs of
           c1 # c2 # c3 # r \<Rightarrow>
             (if b = 240 then 144 \<le> c1 \<and> c1 \<le> 191
              else if b = 244 then 128 \<le> c1 \<and> c1 \<le> 143
              else cont_byte c1)
             \<and> cont_byte c2 \<and> cont_byte c3 \<and> utf8_valid r
         | _ \<Rightarrow> False)
      else False)"

text \<open>
  \<^verbatim>\<open>f.readlines()\<close> in text mode with universal newlines: a line ends at
  \<^verbatim>\<open>\n\<close>, \<^verbatim>\<open>\r\n\<close> or \<^verbatim>\<open>\r\<close>, each read as \<^verbatim>\<open>\n\<close>; a last line
  without terminator counts when it is not empty. The first argument is the line read so
  far.
\<close>

fun split_lines :: "string \<Rightarrow> string \<Rightarrow> string list" where
  "split_lines cur [] = (if cur = [] then [] else [cur])"
| "split_lines cur [c] =
     (if c = CHR 0x0A \<or> c = CHR 0x0D then [cur @ [CHR 0x0A]] else [cur @ [c]])"
| "split_lines cur (c # d # ds) =
     (if c = CHR 0x0A then (cur @ [CHR 0x0A]) # split_lines [] (d # ds)
      else if c = CHR 0x0D then
        (if d = CHR 0x0A then (cur @ [CHR 0x0A]) # split_lines [] ds
         else (cur @ [CHR 0x0A]) # split_lines [] (d # ds))
      else split_lines (cur @ [c]) (d # ds))"

text \<open>
  Opening a file as UTF-8 text and reading its lines: \<open>None\<close> when the open or the
  decoding raises.
\<close>

definition readlines :: "disk_file \<Rightarrow> string list option" where
  "readlines f =
     (if readable f \<and> utf8_valid (map of_char (data f))
      then Some (split_lines [] (data f)) else None)"

text \<open>
  \<^verbatim>\<open>is_download_needed\<close>: \<^verbatim>\<open>os.path.exists\<close> is a lookup in the file system,
  \<^verbatim>\<open>os.path.getsize\<close> the number of bytes; the bare \<^verbatim>\<open>except\<close> turns a failed
  read into \<open>True\<close>.
\<close>

definition is_download_needed :: "string \<Rightarrow> bool \<Rightarrow> filesystem \<Rightarrow> bool" where
  "is_download_needed csv_path overwrite_existing files =
     (if overwrite_existing then True
      else
        (case files csv_path of
           None \<Rightarrow> True
         | Some f \<Rightarrow>
             if length (data f) < 100 then True
             else
               (case readlines f of
                  None \<Rightarrow> True
                | Some lines \<Rightarrow> length lines \<le> 1)))"

section \<open>Configuration, environment and state\<close>

text \<open>
  The configuration dictionary, as far as the modelled functions read it. It is taken as
  loaded and validated: delays and the retry count are natural numbers.
\<close>

record config =
  base_url :: string
  output_directory :: string
  retry_attempts :: nat
  retry_delay :: nat
  rate_limit_delay :: nat
  auto_extract :: bool
  delete_zip :: bool
  overwrite_existing :: bool
  start_date :: string
  end_date :: string
  trading_pairs :: "string list"
  cfg_data_types :: "(string \<times> bool) list"
  cfg_kline_intervals :: "string list"

text \<open>
  What one HTTP request returns. \<open>Transport_error\<close> is a
  \<^verbatim>\<open>requests.exceptions.RequestException\<close> raised by \<^verbatim>\<open>session.get\<close> (timeout,
  connection failure). A response has a status and a body stream, which either delivers
  all its bytes or breaks after some of them (\<^verbatim>\<open>iter_content\<close> raising a
  \<^verbatim>\<open>RequestException\<close>).
\<close>

datatype body = Complete string | Broken string

datatype http_result = Transport_error | Response nat body

text \<open>
  One member of a zip archive, as \<^verbatim>\<open>extractall\<close> meets it: \<open>Intact\<close> is written
  out in full; \<open>Damaged\<close> raises \<^verbatim>\<open>BadZipFile\<close> (bad CRC) after the bytes given
  have been written to the target; \<open>Unopenable\<close> raises another exception before the
  target is created.
\<close>

datatype member = Intact string | Damaged string | Unopenable

text \<open>
  The environment of a run, which the program does not control: the remote server (the
  result of the \<open>n\<close>-th request of the run, sent to a URL), the zip format (the members
  of a byte sequence, \<open>None\<close> when \<^verbatim>\<open>zipfile.ZipFile\<close> raises \<^verbatim>\<open>BadZipFile\<close>),
  the paths on which \<^verbatim>\<open>os.remove\<close> raises, the ordinal of the current day and the
  answer of the trading-pairs endpoint.
\<close>

record env =
  server :: "string \<Rightarrow> nat \<Rightarrow> http_result"
  unzip :: "string \<Rightarrow> (string \<times> member) list option"
  remove_fails :: "string \<Rightarrow> bool"
  today :: nat
  api_trading_pairs :: "error + string list"

text \<open>
  The observable effects, in order: HTTP requests, the two sleeps of
  \<^verbatim>\<open>download_file\<close>, and the log calls.
\<close>

datatype event =
    Http_get string
  | Sleep_rate_limit nat
  | Sleep_retry nat
  | Log_skip string
  | Log_downloading nat nat string
  | Log_not_available string
  | Log_downloaded nat string
  | Log_extracted string
  | Log_deleted string
  | Log_extract_failed string
  | Log_attempt_failed nat
  | Log_retrying nat
  | Log_all_failed string
  | Log_unexpected
  | Log_download_file_error
  | Log_corrupted string
  | Log_extract_error string
  | Log_no_intervals string
  | Log_processing string string
  | Log_completed string string nat nat
  | Log_partial string string nat nat
  | Log_starting
  | Log_progress nat nat nat
  | Log_summary nat nat
  | Log_no_tasks
  | Log_main_error

record world =
  files :: filesystem
  trace :: "event list"

definition emit :: "event list \<Rightarrow> world \<Rightarrow> world" where
  "emit es w = w\<lparr>trace := trace w @ es\<rparr>"

definition write_file :: "string \<Rightarrow> string \<Rightarrow> world \<Rightarrow> world" where
  "write_file path bytes w = w\<lparr>files := (files w)(path \<mapsto> \<lparr>data = bytes, readable = True\<rparr>)\<rparr>"

fun is_request :: "event \<Rightarrow> bool" where
  "is_request (Http_get url) = True"
| "is_request e = False"

definition requests_made :: "world \<Rightarrow> nat" where
  "requests_made w = length (filter is_request (trace w))"

section \<open>downloader.py: extraction\<close>

text \<open>
  \<^verbatim>\<open>zip_ref.extractall(extract_dir)\<close>: the members are written in order below the
  directory; the first member that raises ends the extraction, with the earlier members
  left on disk. The result is the exception, if any: \<open>True\<close> for \<^verbatim>\<open>BadZipFile\<close>.
\<close>

fun extractall ::
  "string \<Rightarrow> (string \<times> member) list \<Rightarrow> filesystem \<Rightarrow> bool option \<times> filesystem" where
  "extractall dir [] fs = (None, fs)"
| "extractall dir ((name, Intact bytes) # ms) fs =
     extractall dir ms (fs(path_join2 dir name \<mapsto> \<lparr>data = bytes, readable = True\<rparr>))"
| "extractall dir ((name, Damaged bytes) # ms) fs =
     (Some True, fs(path_join2 dir name \<mapsto> \<lparr>data = bytes, readable = True\<rparr>))"
| "extractall dir ((name, Unopenable) # ms) fs = (Some False, fs)"

text \<open>
  \<^verbatim>\<open>_extract_zip_file\<close>: a missing or unreadable archive file and an archive that
  is no zip raise in the \<^verbatim>\<open>ZipFile\<close> constructor; both handlers log and return
  \<^verbatim>\<open>False\<close>.
\<close>

definition extract_zip_file :: "env \<Rightarrow> string \<Rightarrow> string \<Rightarrow> world \<Rightarrow> bool \<times> world" where
  "extract_zip_file e zip_path extract_dir w =
     (case files w zip_path of
        None \<Rightarrow> (False, emit [Log_extract_error zip_path] w)
      | Some f \<Rightarrow>
          if \<not> readable f then (False, emit [Log_extract_error zip_path] w)
          else
            (case unzip e (data f) of
               None \<Rightarrow> (False, emit [Log_corrupted zip_path] w)
             | Some members \<Rightarrow>
                 (case extractall extract_dir members (files w) of
                    (None, fs') \<Rightarrow> (True, w\<lparr>files := fs'\<rparr>)
                  | (Some bad_zip, fs') \<Rightarrow>
                      (False,
                       emit [if bad_zip then Log_corrupted zip_path
                             else Log_extract_error zip_path]
                         (w\<lparr>files := fs'\<rparr>)))))"

section \<open>downloader.py: download_file\<close>

text \<open>
  What one pass through the body of the retry loop does to the control flow: it returns
  from \<^verbatim>\<open>download_file\<close>, or the loop goes on to the next attempt.
\<close>

datatype attempt_result = Return bool | Next_attempt

text \<open>
  \<^verbatim>\<open>response.raise_for_status()\<close> raises \<^verbatim>\<open>HTTPError\<close>, a
  \<^verbatim>\<open>RequestException\<close>, for the client and server error statuses, and for no other.
\<close>

definition raise_for_status :: "nat \<Rightarrow> bool" where
  "raise_for_status status = (400 \<le> status \<and> status < 600)"

text \<open>
  The handler \<^verbatim>\<open>except requests.exceptions.RequestException\<close>: a warning, then a
  sleep of \<^verbatim>\<open>retry_delay\<close> and the next attempt, or the final error after the last one.
\<close>

definition request_failed :: "config \<Rightarrow> string \<Rightarrow> nat \<Rightarrow> world \<Rightarrow> attempt_result \<times> world" where
  "request_failed cfg url attempt w =
     (if attempt < retry_attempts cfg - 1 then
        (Next_attempt,
         emit [Log_attempt_failed (attempt + 1), Log_retrying (retry_delay cfg),
               Sleep_retry (retry_delay cfg)] w)
      else
        (Return False, emit [Log_attempt_failed (attempt + 1), Log_all_failed url] w))"

text \<open>
  What follows a fully received body: the archive is on disk; with auto-extract it is
  extracted and, when that worked and delete-zip is set, removed. A failing
  \<^verbatim>\<open>os.remove\<close> raises \<^verbatim>\<open>OSError\<close>, which is no \<^verbatim>\<open>RequestException\<close>: the
  handler \<^verbatim>\<open>except Exception\<close> logs it and returns \<^verbatim>\<open>False\<close>.
\<close>

definition after_download ::
  "config \<Rightarrow> env \<Rightarrow> string \<Rightarrow> string \<Rightarrow> string \<Rightarrow> string \<Rightarrow> world \<Rightarrow> attempt_result \<times> world" where
  "after_download cfg e zip_path file_dir zip_filename csv_filename w =
     (if auto_extract cfg then
        (case extract_zip_file e zip_path file_dir w of
           (True, w') \<Rightarrow>
             if delete_zip cfg then
               (if remove_fails e zip_path \<or> files w' zip_path = None then
                  (Return False, emit [Log_extracted csv_filename, Log_unexpected] w')
                else
                  (Return True,
                   emit [Log_extracted csv_filename, Log_deleted zip_filename]
                     (w'\<lparr>files := (files w')(zip_path := None)\<rparr>)))
             else (Return True, emit [Log_extracted csv_filename] w')
         | (False, w') \<Rightarrow> (Return False, emit [Log_extract_failed zip_filename] w'))
      else (Return True, w))"

text \<open>
  The body of the loop \<^verbatim>\<open>for attempt in range(self.retry_attempts)\<close>. The request is
  the \<open>n\<close>-th of the run, \<open>n\<close> the number of requests in the trace so far. The chunks
  of \<^verbatim>\<open>iter_content\<close> are written one after the other: the file holds the bytes
  received, all of them or those before the stream broke. Opening the archive file for
  writing and reading the content-length header are taken to succeed.
\<close>

definition attempt_body ::
  "config \<Rightarrow> env \<Rightarrow> string \<Rightarrow> string \<Rightarrow> string \<Rightarrow> string \<Rightarrow> string \<Rightarrow> nat \<Rightarrow> world
     \<Rightarrow> attempt_result \<times> world" where
  "attempt_body cfg e url zip_path file_dir zip_filename csv_filename attempt w =
     (let w1 = emit [Log_downloading (attempt + 1) (retry_attempts cfg) url,
                     Sleep_rate_limit (rate_limit_delay cfg), Http_get url] w
      in case server e url (requests_made w) of
           Transport_error \<Rightarrow> request_failed cfg url attempt w1
         | Response status content \<Rightarrow>
             if status = 404 then (Return False, emit [Log_not_available url] w1)
             else if raise_for_status status then request_failed cfg url attempt w1
             else
               (case content of
                  Broken bytes \<Rightarrow> request_failed cfg url attempt (write_file zip_path bytes w1)
                | Complete bytes \<Rightarrow>
                    after_download cfg e zip_path file_dir zip_filename csv_filename
                      (emit [Log_downloaded (length bytes) zip_filename]
                         (write_file zip_path bytes w1))))"

text \<open>
  The loop over the attempts \<^verbatim>\<open>range(self.retry_attempts)\<close>; the
  \<^verbatim>\<open>return False\<close> after the loop is the empty list.
\<close>

fun attempt_loop ::
  "config \<Rightarrow> env \<Rightarrow> string \<Rightarrow> string \<Rightarrow> string \<Rightarrow> string \<Rightarrow> string \<Rightarrow> nat list \<Rightarrow> world
     \<Rightarrow> bool \<times> world" where
  "attempt_loop cfg e url zip_path file_dir zip_filename csv_filename [] w = (False, w)"
| "attempt_loop cfg e url zip_path file_dir zip_filename csv_filename (attempt # rest) w =
     (case attempt_body cfg e url zip_path file_dir zip_filename csv_filename attempt w of
        (Return b, w') \<Rightarrow> (b, w')
      | (Next_attempt, w') \<Rightarrow>
          attempt_loop cfg e url zip_path file_dir zip_filename csv_filename rest w')"

text \<open>\<^verbatim>\<open>os.path.basename\<close>: what follows the last separator.\<close>

definition basename :: "string \<Rightarrow> string" where
  "basename path = rev (takeWhile (\<lambda>c. c \<noteq> CHR ''/'') (rev path))"

text \<open>The paths that \<^verbatim>\<open>download_file\<close> computes for a task.\<close>

definition file_dir_of :: "config \<Rightarrow> string \<Rightarrow> string \<Rightarrow> string option \<Rightarrow> string" where
  "file_dir_of cfg symbol data_type interval =
     get_file_directory data_type symbol interval (output_directory cfg)"

definition zip_path_of :: "config \<Rightarrow> string \<Rightarrow> string \<Rightarrow> string \<Rightarrow> string option \<Rightarrow> string" where
  "zip_path_of cfg symbol data_type date interval =
     path_join2 (file_dir_of cfg symbol data_type interval)
       (get_output_filename symbol data_type date interval ''zip'')"

definition csv_path_of :: "config \<Rightarrow> string \<Rightarrow> string \<Rightarrow> string \<Rightarrow> string option \<Rightarrow> string" where
  "csv_path_of cfg symbol data_type date interval =
     path_join2 (file_dir_of cfg symbol data_type interval)
       (get_output_filename symbol data_type date interval ''csv'')"

text \<open>
  \<^verbatim>\<open>download_file\<close>. The \<^verbatim>\<open>ValueError\<close> of \<^verbatim>\<open>build_download_url\<close> reaches the
  outer handler, which logs and returns \<^verbatim>\<open>False\<close>. The result \<^verbatim>\<open>True\<close> stands for
  both outcomes Skipped and Succeeded; the trace tells them apart.
\<close>

definition download_file ::
  "config \<Rightarrow> env \<Rightarrow> string \<Rightarrow> string \<Rightarrow> string \<Rightarrow> string option \<Rightarrow> world \<Rightarrow> bool \<times> world" where
  "download_file cfg e symbol data_type date interval w =
     (case build_download_url (base_url cfg) data_type symbol date interval of
        Inl err \<Rightarrow> (False, emit [Log_download_file_error] w)
      | Inr url \<Rightarrow>
          if \<not> is_download_needed (csv_path_of cfg symbol data_type date interval)
                 (overwrite_existing cfg) (files w)
          then
            (True, emit [Log_skip (basename (csv_path_of cfg symbol data_type date interval))] w)
          else
            attempt_loop cfg e url
              (zip_path_of cfg symbol data_type date interval)
              (file_dir_of cfg symbol data_type interval)
              (get_output_filename symbol data_type date interval ''zip'')
              (get_output_filename symbol data_type date interval ''csv'')
              [0..<retry_attempts cfg] w)"

section \<open>downloader.py: download_symbol_data\<close>





section \<open>utils.py: dates\<close>




















section \<open>main.py: tasks\<close>

text \<open>
  The task dictionary of \<^verbatim>\<open>generate_download_tasks\<close>: one per date and symbol, with
  the configuration's data types and intervals. Of the log calls of \<^verbatim>\<open>main.py\<close> the
  model keeps those of \<^verbatim>\<open>download_task\<close>, \<^verbatim>\<open>run_downloads\<close> and the two error
  exits of \<^verbatim>\<open>main\<close>.
\<close>

record task =
  symbol :: string
  date :: string
  data_types :: "(string \<times> bool) list"
  kline_intervals :: "string list"












section \<open>The sequence of fetches\<close>







section \<open>Predicates of the specification\<close>

text \<open>
  The resume condition as the specification words it: the extracted file exists, can be
  read, has at least the threshold of 100 bytes and more than one line.
\<close>

definition spec_file_complete :: "filesystem \<Rightarrow> string \<Rightarrow> bool" where
  "spec_file_complete fs path =
     (case fs path of
        None \<Rightarrow> False
      | Some f \<Rightarrow>
          (case readlines f of
             None \<Rightarrow> False
           | Some lines \<Rightarrow> 100 \<le> length (data f) \<and> 1 < length lines))"

text \<open>
  An attempt that ends in a transport error or in an error status other than 404: the
  request raises, the status is one on which \<^verbatim>\<open>raise_for_status\<close> raises, or the body
  stream breaks.
\<close>

fun transient_failure :: "http_result \<Rightarrow> bool" where
  "transient_failure Transport_error = True"
| "transient_failure (Response status (Broken bytes)) = (status \<noteq> 404)"
| "transient_failure (Response status (Complete bytes)) =
     (status \<noteq> 404 \<and> raise_for_status status)"

text \<open>The events of the \<open>k\<close>-th attempt (counted from 0) when it fails so.\<close>

definition failed_attempt_events :: "config \<Rightarrow> string \<Rightarrow> nat \<Rightarrow> event list" where
  "failed_attempt_events cfg url k =
     [Log_downloading (k + 1) (retry_attempts cfg) url,
      Sleep_rate_limit (rate_limit_delay cfg), Http_get url, Log_attempt_failed (k + 1)]
     @ (if k < retry_attempts cfg - 1
        then [Log_retrying (retry_delay cfg), Sleep_retry (retry_delay cfg)]
        else [Log_all_failed url])"

text \<open>The events that a call has added to the trace.\<close>

definition events_since :: "world \<Rightarrow> world \<Rightarrow> event list" where
  "events_since w w' = drop (length (trace w)) (trace w')"

text \<open>
  Whether the bytes of a downloaded archive extract into a directory without an
  exception: they are a zip archive and no member raises.
\<close>

definition archive_extracts :: "env \<Rightarrow> string \<Rightarrow> string \<Rightarrow> filesystem \<Rightarrow> bool" where
  "archive_extracts e bytes dir fs =
     (case unzip e bytes of
        None \<Rightarrow> False
      | Some members \<Rightarrow> fst (extractall dir members fs) = None)"

fun is_retry_sleep :: "event \<Rightarrow> bool" where
  "is_retry_sleep (Sleep_retry delay) = True"
| "is_retry_sleep ev = False"

section \<open>Example inputs\<close>

text \<open>
  A configuration, an environment and a state on which the theorems are evaluated: one
  symbol, one day, the data type aggTrades, three attempts, an empty disk. The example
  server answers every request with status 200 and the bytes \<open>''PK''\<close>, which the example
  zip format reads as an archive of one intact csv member of two lines and 126 bytes.
\<close>

definition example_csv :: string where
  "example_csv =
     ''agg_trade_id,price,quantity,first_trade_id,last_trade_id,transact_time,is_buyer_maker''
     @ [CHR 0x0A] @ ''1,64000.10,0.005,1,1,1722470400000,true'' @ [CHR 0x0A]"

definition example_config :: config where
  "example_config =
     \<lparr>base_url = ''https://host/'', output_directory = ''./data'',
      retry_attempts = 3, retry_delay = 5, rate_limit_delay = 1,
      auto_extract = True, delete_zip = True, overwrite_existing = False,
      start_date = ''2024-08-01'', end_date = ''2024-08-01'',
      trading_pairs = [''BTCUSDT''], cfg_data_types = [(''aggTrades'', True)],
      cfg_kline_intervals = []\<rparr>"

definition example_unzip :: "string \<Rightarrow> (string \<times> member) list option" where
  "example_unzip bytes =
     (if bytes = ''PK'' then Some [(''BTCUSDT-aggTrades-2024-08-01.csv'', Intact example_csv)]
      else if bytes = ''PK-damaged''
      then Some [(''BTCUSDT-aggTrades-2024-08-01.csv'', Damaged ''agg_trade_id,pr'')]
      else None)"

definition example_env :: env where
  "example_env =
     \<lparr>server = (\<lambda>url n. Response 200 (Complete ''PK'')), unzip = example_unzip,
      remove_fails = (\<lambda>path. False), today = 739099, api_trading_pairs = Inr []\<rparr>"

definition empty_world :: world where
  "empty_world = \<lparr>files = Map.empty, trace = []\<rparr>"

definition world_with_file :: "string \<Rightarrow> string \<Rightarrow> world" where
  "world_with_file path bytes =
     \<lparr>files = [path \<mapsto> \<lparr>data = bytes, readable = True\<rparr>], trace = []\<rparr>"

text \<open>
  Variants of the example: no extraction; a server that answers 304 with an empty body; a
  server whose first request breaks in transport and whose later ones answer 503; a
  server that answers 404; a server that sends bytes that are no archive, or an archive
  whose csv member is damaged; a disk on which the archive cannot be removed.
\<close>

definition example_config_no_extract :: config where
  "example_config_no_extract = example_config\<lparr>auto_extract := False\<rparr>"

definition not_modified_env :: env where
  "not_modified_env = example_env\<lparr>server := (\<lambda>url n. Response 304 (Complete []))\<rparr>"

definition failing_env :: env where
  "failing_env =
     example_env\<lparr>server := (\<lambda>url n. if n = 0 then Transport_error
                                     else Response 503 (Complete ''busy''))\<rparr>"

definition not_found_env :: env where
  "not_found_env = example_env\<lparr>server := (\<lambda>url n. Response 404 (Complete ''no such key''))\<rparr>"

definition corrupt_env :: env where
  "corrupt_env = example_env\<lparr>server := (\<lambda>url n. Response 200 (Complete ''garbage''))\<rparr>"

definition damaged_env :: env where
  "damaged_env = example_env\<lparr>server := (\<lambda>url n. Response 200 (Complete ''PK-damaged''))\<rparr>"

definition locked_env :: env where
  "locked_env = example_env\<lparr>remove_fails := (\<lambda>path. True)\<rparr>"

text \<open>
  Servers whose first request breaks in transport and whose second one answers 200: with
  bytes that are no archive, and with the example archive, on a disk where the archive
  can and where it cannot be removed.
\<close>

definition corrupt_retry_env :: env where
  "corrupt_retry_env =
     example_env\<lparr>server := (\<lambda>url n. if n = 0 then Transport_error
                                     else Response 200 (Complete ''garbage''))\<rparr>"

definition retry_env :: env where
  "retry_env =
     example_env\<lparr>server := (\<lambda>url n. if n = 0 then Transport_error
                                     else Response 200 (Complete ''PK''))\<rparr>"

definition locked_retry_env :: env where
  "locked_retry_env = retry_env\<lparr>remove_fails := (\<lambda>path. True)\<rparr>"








section \<open>Download URLs\<close>

text \<open>
  C7, as stated, fails: for an interval-bearing data type the code builds the archive
  filename \<^verbatim>\<open>{symbol}-{interval}-{date}.zip\<close>, without the data_type segment that
  the specified pattern has.
\<close>

theorem build_download_url_klines_counterexample:
  "build_download_url ''https://data.binance.vision/data/futures/um/daily/''
      ''klines'' ''BTCUSDT'' ''2024-08-01'' (Some ''1h'')
     = Inr ''https://data.binance.vision/data/futures/um/daily/klines/BTCUSDT/1h/BTCUSDT-1h-2024-08-01.zip''
   \<and> spec_download_url ''https://data.binance.vision/data/futures/um/daily/''
      ''klines'' ''BTCUSDT'' ''2024-08-01'' (Some ''1h'')
     = ''https://data.binance.vision/data/futures/um/daily/klines/BTCUSDT/1h/BTCUSDT-1h-klines-2024-08-01.zip''
   \<and> build_download_url ''https://data.binance.vision/data/futures/um/daily/''
      ''klines'' ''BTCUSDT'' ''2024-08-01'' (Some ''1h'')
     \<noteq> Inr (spec_download_url ''https://data.binance.vision/data/futures/um/daily/''
      ''klines'' ''BTCUSDT'' ''2024-08-01'' (Some ''1h''))"
  by (simp add: build_download_url_def spec_download_url_def interval_data_types_def)

text \<open>
  C7, amended: a data type without interval resolves to the specified pattern (the
  interval argument, if any, is ignored); an interval-bearing data type with interval
  \<open>iv\<close> resolves to
  \<^verbatim>\<open>{base_url}{data_type}/{symbol}/{interval}/{symbol}-{interval}-{date}.zip\<close>, whose
  filename has no data_type segment.
\<close>

theorem build_download_url_shape:
  "(dt \<notin> set interval_data_types \<longrightarrow>
      build_download_url base dt smb d interval
        = Inr (spec_download_url base dt smb d None))
   \<and> (dt \<in> set interval_data_types \<longrightarrow>
      build_download_url base dt smb d (Some iv)
        = Inr (base @ dt @ ''/'' @ smb @ ''/'' @ iv @ ''/''
               @ smb @ ''-'' @ iv @ ''-'' @ d @ ''.zip''))"
  by (simp add: build_download_url_def spec_download_url_def)

theorem build_download_url_shape_witness:
  "''aggTrades'' \<notin> set interval_data_types
   \<and> build_download_url ''https://host/'' ''aggTrades'' ''BTCUSDT'' ''2024-08-01'' None
       = Inr ''https://host/aggTrades/BTCUSDT/BTCUSDT-aggTrades-2024-08-01.zip''
   \<and> ''klines'' \<in> set interval_data_types
   \<and> build_download_url ''https://host/'' ''klines'' ''BTCUSDT'' ''2024-08-01'' (Some ''1h'')
       = Inr ''https://host/klines/BTCUSDT/1h/BTCUSDT-1h-2024-08-01.zip''"
  using build_download_url_shape [of "''aggTrades''" "''https://host/''" "''BTCUSDT''"
      "''2024-08-01''" None "''1h''"]
    build_download_url_shape [of "''klines''" "''https://host/''" "''BTCUSDT''"
      "''2024-08-01''" None "''1h''"]
  by (simp add: spec_download_url_def interval_data_types_def)

section \<open>Basic facts about traces and files\<close>

lemmas path_defs = csv_path_of_def zip_path_of_def file_dir_of_def get_file_directory_def
  get_output_filename_def path_join_def path_join2_def build_download_url_def
  interval_data_types_def basename_def

lemmas run_defs = download_file_def attempt_body_def after_download_def request_failed_def
  extract_zip_file_def emit_def write_file_def requests_made_def is_download_needed_def
  raise_for_status_def readlines_def

lemmas example_defs = example_config_def example_env_def empty_world_def example_unzip_def
  example_csv_def

lemma trace_emit [simp]: "trace (emit es w) = trace w @ es"
  by (simp add: emit_def)

lemma files_emit [simp]: "files (emit es w) = files w"
  by (simp add: emit_def)

lemma trace_write_file [simp]: "trace (write_file path bytes w) = trace w"
  by (simp add: write_file_def)

lemma files_write_file [simp]:
  "files (write_file path bytes w) = (files w)(path \<mapsto> \<lparr>data = bytes, readable = True\<rparr>)"
  by (simp add: write_file_def)

lemma requests_made_emit [simp]:
  "requests_made (emit es w) = requests_made w + length (filter is_request es)"
  by (simp add: requests_made_def)

lemma requests_made_write_file [simp]:
  "requests_made (write_file path bytes w) = requests_made w"
  by (simp add: requests_made_def)

lemma requests_made_files_update [simp]:
  "requests_made (w\<lparr>files := fs\<rparr>) = requests_made w"
  by (simp add: requests_made_def)

lemma extract_zip_file_requests [simp]:
  "requests_made (snd (extract_zip_file e zip_path dir w)) = requests_made w"
  by (simp add: extract_zip_file_def split: option.split prod.split)

lemma request_failed_requests [simp]:
  "requests_made (snd (request_failed cfg url k w)) = requests_made w"
  by (simp add: request_failed_def)

lemma after_download_requests [simp]:
  "requests_made (snd (after_download cfg e zip_path dir zf cf w)) = requests_made w"
proof -
  obtain ok w' where ex: "extract_zip_file e zip_path dir w = (ok, w')"
    by (cases "extract_zip_file e zip_path dir w")
  then have "requests_made w' = requests_made w"
    using extract_zip_file_requests [of e zip_path dir w] by simp
  with ex show ?thesis
    by (cases ok) (simp_all add: after_download_def)
qed

lemma attempt_body_requests:
  "requests_made (snd (attempt_body cfg e url zip_path dir zf cf k w)) = requests_made w + 1"
  by (simp add: attempt_body_def Let_def split: http_result.split body.split)

text \<open>The retry loop never forgets a request, and it succeeds only after one.\<close>

lemma attempt_loop_requests_mono:
  "requests_made w \<le> requests_made (snd (attempt_loop cfg e url zip_path dir zf cf ks w))"
proof (induction ks arbitrary: w)
  case Nil
  show ?case by simp
next
  case (Cons k ks)
  obtain r w' where body: "attempt_body cfg e url zip_path dir zf cf k w = (r, w')"
    by (cases "attempt_body cfg e url zip_path dir zf cf k w")
  then have step: "requests_made w' = requests_made w + 1"
    using attempt_body_requests [of cfg e url zip_path dir zf cf k w] by simp
  show ?case
  proof (cases r)
    case (Return b)
    with body step show ?thesis by simp
  next
    case Next_attempt
    with body step Cons.IH [of w'] show ?thesis by simp
  qed
qed

lemma attempt_loop_success_requests:
  assumes "fst (attempt_loop cfg e url zip_path dir zf cf ks w)"
  shows "requests_made w < requests_made (snd (attempt_loop cfg e url zip_path dir zf cf ks w))"
proof (cases ks)
  case Nil
  with assms show ?thesis by simp
next
  case (Cons k rest)
  obtain r w' where body: "attempt_body cfg e url zip_path dir zf cf k w = (r, w')"
    by (cases "attempt_body cfg e url zip_path dir zf cf k w")
  then have step: "requests_made w' = requests_made w + 1"
    using attempt_body_requests [of cfg e url zip_path dir zf cf k w] by simp
  show ?thesis
  proof (cases r)
    case (Return b)
    with body step Cons show ?thesis by simp
  next
    case Next_attempt
    with body step Cons attempt_loop_requests_mono [of w' cfg e url zip_path dir zf cf rest]
    show ?thesis by simp
  qed
qed

lemma is_download_needed_iff:
  "is_download_needed path False fs \<longleftrightarrow> \<not> spec_file_complete fs path"
  by (auto simp: is_download_needed_def spec_file_complete_def split: option.splits)

section \<open>The resume check\<close>

text \<open>
  C1: with overwrite disabled, for every task that resolves to a URL and a csv path,
  \<^verbatim>\<open>download_file\<close> returns success without a request exactly when the file at the csv
  path exists, can be read, has at least 100 bytes and more than one line; then it only
  logs the skip, and in every other case it enters the retry loop.
\<close>

theorem resume_check:
  assumes "build_download_url (base_url cfg) dt smb d iv = Inr url"
    and "\<not> overwrite_existing cfg"
  shows
    "((fst (download_file cfg e smb dt d iv w)
        \<and> requests_made (snd (download_file cfg e smb dt d iv w)) = requests_made w)
       \<longleftrightarrow> spec_file_complete (files w) (csv_path_of cfg smb dt d iv))
     \<and> (spec_file_complete (files w) (csv_path_of cfg smb dt d iv) \<longrightarrow>
          download_file cfg e smb dt d iv w
            = (True, emit [Log_skip (basename (csv_path_of cfg smb dt d iv))] w))
     \<and> (\<not> spec_file_complete (files w) (csv_path_of cfg smb dt d iv) \<longrightarrow>
          download_file cfg e smb dt d iv w
            = attempt_loop cfg e url (zip_path_of cfg smb dt d iv) (file_dir_of cfg smb dt iv)
                (get_output_filename smb dt d iv ''zip'')
                (get_output_filename smb dt d iv ''csv'') [0..<retry_attempts cfg] w)"
proof (cases "spec_file_complete (files w) (csv_path_of cfg smb dt d iv)")
  case True
  with assms show ?thesis
    by (simp add: download_file_def is_download_needed_iff)
next
  case False
  with assms have loop:
    "download_file cfg e smb dt d iv w
       = attempt_loop cfg e url (zip_path_of cfg smb dt d iv) (file_dir_of cfg smb dt iv)
           (get_output_filename smb dt d iv ''zip'')
           (get_output_filename smb dt d iv ''csv'') [0..<retry_attempts cfg] w"
    by (simp add: download_file_def is_download_needed_iff)
  have "\<not> (fst (download_file cfg e smb dt d iv w)
        \<and> requests_made (snd (download_file cfg e smb dt d iv w)) = requests_made w)"
    using attempt_loop_success_requests
      [of cfg e url "zip_path_of cfg smb dt d iv" "file_dir_of cfg smb dt iv"
          "get_output_filename smb dt d iv ''zip''" "get_output_filename smb dt d iv ''csv''"
          "[0..<retry_attempts cfg]" w]
    unfolding loop by auto
  with False loop show ?thesis by simp
qed

lemma example_csv_complete:
  "spec_file_complete [p \<mapsto> \<lparr>data = example_csv, readable = True\<rparr>] p"
  by (simp add: spec_file_complete_def readlines_def example_csv_def)

theorem resume_check_witness:
  "build_download_url (base_url example_config) ''aggTrades'' ''BTCUSDT'' ''2024-08-01'' None
     = Inr ''https://host/aggTrades/BTCUSDT/BTCUSDT-aggTrades-2024-08-01.zip''
   \<and> \<not> overwrite_existing example_config
   \<and> spec_file_complete
        (files (world_with_file ''./data/aggTrades/BTCUSDT/BTCUSDT-aggTrades-2024-08-01.csv''
           example_csv))
        (csv_path_of example_config ''BTCUSDT'' ''aggTrades'' ''2024-08-01'' None)
   \<and> download_file example_config example_env ''BTCUSDT'' ''aggTrades'' ''2024-08-01'' None
        (world_with_file ''./data/aggTrades/BTCUSDT/BTCUSDT-aggTrades-2024-08-01.csv''
           example_csv)
       = (True, emit [Log_skip ''BTCUSDT-aggTrades-2024-08-01.csv'']
           (world_with_file ''./data/aggTrades/BTCUSDT/BTCUSDT-aggTrades-2024-08-01.csv''
              example_csv))
   \<and> \<not> spec_file_complete (files empty_world)
        (csv_path_of example_config ''BTCUSDT'' ''aggTrades'' ''2024-08-01'' None)
   \<and> requests_made (snd (download_file example_config example_env ''BTCUSDT'' ''aggTrades''
        ''2024-08-01'' None empty_world)) \<noteq> requests_made empty_world"
proof -
  have url: "build_download_url (base_url example_config) ''aggTrades'' ''BTCUSDT''
      ''2024-08-01'' None
     = Inr ''https://host/aggTrades/BTCUSDT/BTCUSDT-aggTrades-2024-08-01.zip''"
    by (simp add: path_defs example_config_def)
  have ow: "\<not> overwrite_existing example_config"
    by (simp add: example_config_def)
  have path: "csv_path_of example_config ''BTCUSDT'' ''aggTrades'' ''2024-08-01'' None
     = ''./data/aggTrades/BTCUSDT/BTCUSDT-aggTrades-2024-08-01.csv''"
    by (simp add: path_defs example_config_def)
  have full: "spec_file_complete
        (files (world_with_file ''./data/aggTrades/BTCUSDT/BTCUSDT-aggTrades-2024-08-01.csv''
           example_csv))
        (csv_path_of example_config ''BTCUSDT'' ''aggTrades'' ''2024-08-01'' None)"
    unfolding path by (simp add: world_with_file_def example_csv_complete)
  have none: "\<not> spec_file_complete (files empty_world)
        (csv_path_of example_config ''BTCUSDT'' ''aggTrades'' ''2024-08-01'' None)"
    by (simp add: spec_file_complete_def empty_world_def)
  have first: "fst (download_file example_config example_env ''BTCUSDT'' ''aggTrades''
        ''2024-08-01'' None empty_world)"
    by (simp add: path_defs run_defs example_defs upt_conv_Cons)
  have bn: "basename (csv_path_of example_config ''BTCUSDT'' ''aggTrades'' ''2024-08-01'' None)
     = ''BTCUSDT-aggTrades-2024-08-01.csv''"
    by (simp add: path_defs example_config_def)
  have skip: "download_file example_config example_env ''BTCUSDT'' ''aggTrades'' ''2024-08-01''
        None (world_with_file ''./data/aggTrades/BTCUSDT/BTCUSDT-aggTrades-2024-08-01.csv''
           example_csv)
       = (True, emit [Log_skip ''BTCUSDT-aggTrades-2024-08-01.csv'']
           (world_with_file ''./data/aggTrades/BTCUSDT/BTCUSDT-aggTrades-2024-08-01.csv''
              example_csv))"
    using full resume_check [OF url ow, of example_env
        "world_with_file ''./data/aggTrades/BTCUSDT/BTCUSDT-aggTrades-2024-08-01.csv'' example_csv"]
    unfolding bn by blast
  have proceeds: "requests_made (snd (download_file example_config example_env ''BTCUSDT''
        ''aggTrades'' ''2024-08-01'' None empty_world)) \<noteq> requests_made empty_world"
    using none first resume_check [OF url ow, of example_env empty_world] by blast
  from url ow full skip none proceeds show ?thesis by blast
qed

section \<open>The retry loop\<close>

lemma attempt_body_transient:
  assumes "transient_failure (server e url (requests_made w))"
  shows "fst (attempt_body cfg e url zip_path dir zf cf k w)
           = (if k < retry_attempts cfg - 1 then Next_attempt else Return False)
         \<and> trace (snd (attempt_body cfg e url zip_path dir zf cf k w))
           = trace w @ failed_attempt_events cfg url k"
proof (cases "server e url (requests_made w)")
  case Transport_error
  then show ?thesis
    by (simp add: attempt_body_def request_failed_def failed_attempt_events_def Let_def)
next
  case (Response status content)
  with assms show ?thesis
    by (cases content)
      (simp_all add: attempt_body_def request_failed_def failed_attempt_events_def Let_def)
qed

lemma attempt_loop_all_fail:
  assumes "k \<le> retry_attempts cfg"
    and "\<forall>j < retry_attempts cfg - k. transient_failure (server e url (requests_made w + j))"
  shows "fst (attempt_loop cfg e url zip_path dir zf cf [k..<retry_attempts cfg] w) = False
         \<and> trace (snd (attempt_loop cfg e url zip_path dir zf cf [k..<retry_attempts cfg] w))
           = trace w @ concat (map (failed_attempt_events cfg url) [k..<retry_attempts cfg])"
  using assms
proof (induction "retry_attempts cfg - k" arbitrary: k w)
  case 0
  then have "retry_attempts cfg \<le> k" by simp
  then show ?case by simp
next
  case (Suc m)
  then have less: "k < retry_attempts cfg" by simp
  then have range: "[k..<retry_attempts cfg] = k # [Suc k..<retry_attempts cfg]"
    by (simp add: upt_conv_Cons)
  obtain r w' where body: "attempt_body cfg e url zip_path dir zf cf k w = (r, w')"
    by (cases "attempt_body cfg e url zip_path dir zf cf k w")
  have "transient_failure (server e url (requests_made w))"
    using Suc.prems(2) less by (metis add.right_neutral zero_less_diff)
  then have r: "r = (if k < retry_attempts cfg - 1 then Next_attempt else Return False)"
    and tr: "trace w' = trace w @ failed_attempt_events cfg url k"
    using attempt_body_transient [of e url w cfg zip_path dir zf cf k] body by simp_all
  have req: "requests_made w' = requests_made w + 1"
    using attempt_body_requests [of cfg e url zip_path dir zf cf k w] body by simp
  show ?case
  proof (cases "k < retry_attempts cfg - 1")
    case True
    have m: "m = retry_attempts cfg - Suc k" using Suc.hyps(2) by simp
    have le: "Suc k \<le> retry_attempts cfg" using less by simp
    have later: "\<forall>j < retry_attempts cfg - Suc k.
        transient_failure (server e url (requests_made w' + j))"
    proof (intro allI impI)
      fix j
      assume "j < retry_attempts cfg - Suc k"
      then have "Suc j < retry_attempts cfg - k" by simp
      then have "transient_failure (server e url (requests_made w + Suc j))"
        using Suc.prems(2) by blast
      then show "transient_failure (server e url (requests_made w' + j))"
        by (simp add: req)
    qed
    from Suc.hyps(1) [OF m le later] True r tr body range show ?thesis by simp
  next
    case False
    with less have "retry_attempts cfg \<le> Suc k" by simp
    with False r tr body range show ?thesis by simp
  qed
qed

lemma count_failed_attempt_events:
  "length (filter is_request (failed_attempt_events cfg url k)) = 1
   \<and> length (filter (\<lambda>ev. ev = Sleep_rate_limit (rate_limit_delay cfg))
        (failed_attempt_events cfg url k)) = 1
   \<and> length (filter (\<lambda>ev. ev = Sleep_retry (retry_delay cfg))
        (failed_attempt_events cfg url k)) = (if k < retry_attempts cfg - 1 then 1 else 0)"
  by (simp add: failed_attempt_events_def)

lemma length_filter_concat_map:
  "length (filter P (concat (map f xs))) = sum_list (map (\<lambda>x. length (filter P (f x))) xs)"
  by (induction xs) simp_all

lemma sum_list_const_one: "sum_list (map (\<lambda>x. Suc 0) xs) = length xs"
  by (induction xs) simp_all

lemma sum_list_retry_sleeps:
  "sum_list (map (\<lambda>k. if k < n - Suc 0 then 1 else 0) [0..<n]) = n - Suc 0"
proof -
  have "sum_list (map (\<lambda>k. if k < m then 1 else 0) [0..<j]) = min m j" for m j
    by (induction j) auto
  from this [of "n - Suc 0" n] show ?thesis by simp
qed

text \<open>
  C2, as stated, fails: a status that is neither 404 nor a success need not be an error
  for \<^verbatim>\<open>raise_for_status\<close>. On the answer 304, with three attempts configured and
  extraction off, \<^verbatim>\<open>download_file\<close> stores the body and returns success after one
  request.
\<close>

theorem not_modified_counterexample:
  "server not_modified_env ''https://host/aggTrades/BTCUSDT/BTCUSDT-aggTrades-2024-08-01.zip'' 0
     = Response 304 (Complete [])
   \<and> retry_attempts example_config_no_extract = 3
   \<and> fst (download_file example_config_no_extract not_modified_env ''BTCUSDT'' ''aggTrades''
        ''2024-08-01'' None empty_world)
   \<and> requests_made (snd (download_file example_config_no_extract not_modified_env ''BTCUSDT''
        ''aggTrades'' ''2024-08-01'' None empty_world)) = 1"
  by (simp add: path_defs run_defs example_defs example_config_no_extract_def
      not_modified_env_def upt_conv_Cons)

text \<open>
  C2, amended: on a task that reaches the retry loop and on which every attempt ends in a
  transport error or in a 4xx or 5xx status other than 404, \<^verbatim>\<open>download_file\<close> returns
  failure; its events are those of \<open>retry_attempts\<close> failed attempts, each a sleep of
  \<open>rate_limit_delay\<close> and then the request, with a sleep of \<open>retry_delay\<close> after
  every attempt but the last: \<open>retry_attempts\<close> requests, as many rate-limit sleeps, and
  \<open>retry_attempts - 1\<close> retry sleeps (none when there is no attempt).
\<close>

theorem transient_failures_exhaust_retries:
  assumes "build_download_url (base_url cfg) dt smb d iv = Inr url"
    and "is_download_needed (csv_path_of cfg smb dt d iv) (overwrite_existing cfg) (files w)"
    and "\<forall>j < retry_attempts cfg. transient_failure (server e url (requests_made w + j))"
  shows
    "\<not> fst (download_file cfg e smb dt d iv w)
     \<and> events_since w (snd (download_file cfg e smb dt d iv w))
         = concat (map (failed_attempt_events cfg url) [0..<retry_attempts cfg])
     \<and> length (filter is_request (events_since w (snd (download_file cfg e smb dt d iv w))))
         = retry_attempts cfg
     \<and> length (filter (\<lambda>ev. ev = Sleep_rate_limit (rate_limit_delay cfg))
          (events_since w (snd (download_file cfg e smb dt d iv w)))) = retry_attempts cfg
     \<and> length (filter (\<lambda>ev. ev = Sleep_retry (retry_delay cfg))
          (events_since w (snd (download_file cfg e smb dt d iv w)))) = retry_attempts cfg - 1"
proof -
  let ?r = "download_file cfg e smb dt d iv w"
  have loop: "?r = attempt_loop cfg e url (zip_path_of cfg smb dt d iv)
      (file_dir_of cfg smb dt iv) (get_output_filename smb dt d iv ''zip'')
      (get_output_filename smb dt d iv ''csv'') [0..<retry_attempts cfg] w"
    using assms(1,2) by (simp add: download_file_def)
  have all: "\<forall>j < retry_attempts cfg - 0.
      transient_failure (server e url (requests_made w + j))"
    using assms(3) by simp
  have res: "\<not> fst ?r"
    and tr: "trace (snd ?r)
      = trace w @ concat (map (failed_attempt_events cfg url) [0..<retry_attempts cfg])"
    using attempt_loop_all_fail [OF le0 all] unfolding loop by simp_all
  have ev: "events_since w (snd ?r)
      = concat (map (failed_attempt_events cfg url) [0..<retry_attempts cfg])"
    by (simp add: events_since_def tr)
  have n1: "length (filter is_request (events_since w (snd ?r))) = retry_attempts cfg"
    unfolding ev length_filter_concat_map
    by (simp add: count_failed_attempt_events sum_list_const_one)
  have n2: "length (filter (\<lambda>ev. ev = Sleep_rate_limit (rate_limit_delay cfg))
      (events_since w (snd ?r))) = retry_attempts cfg"
    unfolding ev length_filter_concat_map
    by (simp add: count_failed_attempt_events sum_list_const_one)
  have n3: "length (filter (\<lambda>ev. ev = Sleep_retry (retry_delay cfg))
      (events_since w (snd ?r))) = retry_attempts cfg - 1"
    unfolding ev length_filter_concat_map
    by (simp add: count_failed_attempt_events sum_list_retry_sleeps)
  from res ev n1 n2 n3 show ?thesis by blast
qed

theorem transient_failures_exhaust_retries_witness:
  "build_download_url (base_url example_config) ''aggTrades'' ''BTCUSDT'' ''2024-08-01'' None
     = Inr ''https://host/aggTrades/BTCUSDT/BTCUSDT-aggTrades-2024-08-01.zip''
   \<and> is_download_needed
        (csv_path_of example_config ''BTCUSDT'' ''aggTrades'' ''2024-08-01'' None)
        (overwrite_existing example_config) (files empty_world)
   \<and> retry_attempts example_config = 3
   \<and> transient_failure (server failing_env
        ''https://host/aggTrades/BTCUSDT/BTCUSDT-aggTrades-2024-08-01.zip'' 0)
   \<and> transient_failure (server failing_env
        ''https://host/aggTrades/BTCUSDT/BTCUSDT-aggTrades-2024-08-01.zip'' 1)
   \<and> transient_failure (server failing_env
        ''https://host/aggTrades/BTCUSDT/BTCUSDT-aggTrades-2024-08-01.zip'' 2)
   \<and> \<not> fst (download_file example_config failing_env ''BTCUSDT'' ''aggTrades'' ''2024-08-01''
        None empty_world)
   \<and> length (filter is_request (events_since empty_world
        (snd (download_file example_config failing_env ''BTCUSDT'' ''aggTrades''
           ''2024-08-01'' None empty_world)))) = 3
   \<and> length (filter (\<lambda>ev. ev = Sleep_retry 5) (events_since empty_world
        (snd (download_file example_config failing_env ''BTCUSDT'' ''aggTrades''
           ''2024-08-01'' None empty_world)))) = 2"
proof -
  have url: "build_download_url (base_url example_config) ''aggTrades'' ''BTCUSDT''
      ''2024-08-01'' None
     = Inr ''https://host/aggTrades/BTCUSDT/BTCUSDT-aggTrades-2024-08-01.zip''"
    by (simp add: path_defs example_config_def)
  have needed: "is_download_needed
        (csv_path_of example_config ''BTCUSDT'' ''aggTrades'' ''2024-08-01'' None)
        (overwrite_existing example_config) (files empty_world)"
    by (simp add: is_download_needed_def empty_world_def)
  have n: "retry_attempts example_config = 3" and rd: "retry_delay example_config = 5"
    by (simp_all add: example_config_def)
  have each: "transient_failure (server failing_env u k)" for u k
    by (simp add: failing_env_def example_env_def raise_for_status_def)
  have fail: "\<forall>j < retry_attempts example_config. transient_failure
      (server failing_env ''https://host/aggTrades/BTCUSDT/BTCUSDT-aggTrades-2024-08-01.zip''
         (requests_made empty_world + j))"
    using each by blast
  note t = transient_failures_exhaust_retries [OF url needed fail]
  have c1: "\<not> fst (download_file example_config failing_env ''BTCUSDT'' ''aggTrades''
      ''2024-08-01'' None empty_world)"
    using t by blast
  have c2: "length (filter is_request (events_since empty_world
        (snd (download_file example_config failing_env ''BTCUSDT'' ''aggTrades''
           ''2024-08-01'' None empty_world)))) = 3"
    using t unfolding n by blast
  have "length (filter (\<lambda>ev. ev = Sleep_retry 5) (events_since empty_world
        (snd (download_file example_config failing_env ''BTCUSDT'' ''aggTrades''
           ''2024-08-01'' None empty_world)))) = 3 - 1"
    using t unfolding n rd by blast
  then have c3: "length (filter (\<lambda>ev. ev = Sleep_retry 5) (events_since empty_world
        (snd (download_file example_config failing_env ''BTCUSDT'' ''aggTrades''
           ''2024-08-01'' None empty_world)))) = 2"
    by simp
  from url needed n each c1 c2 c3 show ?thesis by blast
qed

section \<open>Runs that end at the first attempt\<close>

lemma download_file_first_attempt:
  assumes "build_download_url (base_url cfg) dt smb d iv = Inr url"
    and "is_download_needed (csv_path_of cfg smb dt d iv) (overwrite_existing cfg) (files w)"
    and "0 < retry_attempts cfg"
    and "attempt_body cfg e url (zip_path_of cfg smb dt d iv) (file_dir_of cfg smb dt iv)
           (get_output_filename smb dt d iv ''zip'') (get_output_filename smb dt d iv ''csv'')
           0 w = (Return b, w')"
  shows "download_file cfg e smb dt d iv w = (b, w')"
proof -
  have "[0..<retry_attempts cfg] = 0 # [Suc 0..<retry_attempts cfg]"
    using assms(3) by (simp add: upt_conv_Cons)
  with assms(1,2,4) show ?thesis
    by (simp add: download_file_def)
qed

text \<open>
  C3: when the first response of a task has status 404, \<^verbatim>\<open>download_file\<close> returns
  failure after that one request: the events are the first attempt's log line, its
  rate-limit sleep, the request and the warning; no file is written and no retry sleep
  occurs.
\<close>

theorem not_found_no_retry:
  assumes "build_download_url (base_url cfg) dt smb d iv = Inr url"
    and "is_download_needed (csv_path_of cfg smb dt d iv) (overwrite_existing cfg) (files w)"
    and "0 < retry_attempts cfg"
    and "server e url (requests_made w) = Response 404 content"
  shows
    "download_file cfg e smb dt d iv w
       = (False, emit [Log_downloading 1 (retry_attempts cfg) url,
                       Sleep_rate_limit (rate_limit_delay cfg), Http_get url,
                       Log_not_available url] w)
     \<and> requests_made (snd (download_file cfg e smb dt d iv w)) = requests_made w + 1
     \<and> files (snd (download_file cfg e smb dt d iv w)) = files w
     \<and> filter is_retry_sleep (events_since w (snd (download_file cfg e smb dt d iv w))) = []"
proof -
  have body: "attempt_body cfg e url (zip_path_of cfg smb dt d iv) (file_dir_of cfg smb dt iv)
      (get_output_filename smb dt d iv ''zip'') (get_output_filename smb dt d iv ''csv'') 0 w
     = (Return False,
        emit [Log_downloading 1 (retry_attempts cfg) url,
              Sleep_rate_limit (rate_limit_delay cfg), Http_get url,
              Log_not_available url] w)"
    using assms(4) by (simp add: attempt_body_def emit_def)
  have r: "download_file cfg e smb dt d iv w
       = (False, emit [Log_downloading 1 (retry_attempts cfg) url,
                       Sleep_rate_limit (rate_limit_delay cfg), Http_get url,
                       Log_not_available url] w)"
    by (rule download_file_first_attempt [OF assms(1-3) body])
  show ?thesis
    unfolding r by (simp add: events_since_def)
qed

theorem not_found_no_retry_witness:
  "build_download_url (base_url example_config) ''aggTrades'' ''BTCUSDT'' ''2024-08-01'' None
     = Inr ''https://host/aggTrades/BTCUSDT/BTCUSDT-aggTrades-2024-08-01.zip''
   \<and> is_download_needed
        (csv_path_of example_config ''BTCUSDT'' ''aggTrades'' ''2024-08-01'' None)
        (overwrite_existing example_config) (files empty_world)
   \<and> 0 < retry_attempts example_config
   \<and> server not_found_env ''https://host/aggTrades/BTCUSDT/BTCUSDT-aggTrades-2024-08-01.zip''
        (requests_made empty_world) = Response 404 (Complete ''no such key'')
   \<and> \<not> fst (download_file example_config not_found_env ''BTCUSDT'' ''aggTrades''
        ''2024-08-01'' None empty_world)
   \<and> requests_made (snd (download_file example_config not_found_env ''BTCUSDT'' ''aggTrades''
        ''2024-08-01'' None empty_world)) = 1
   \<and> files (snd (download_file example_config not_found_env ''BTCUSDT'' ''aggTrades''
        ''2024-08-01'' None empty_world)) = Map.empty"
proof -
  have url: "build_download_url (base_url example_config) ''aggTrades'' ''BTCUSDT''
      ''2024-08-01'' None
     = Inr ''https://host/aggTrades/BTCUSDT/BTCUSDT-aggTrades-2024-08-01.zip''"
    by (simp add: path_defs example_config_def)
  have needed: "is_download_needed
        (csv_path_of example_config ''BTCUSDT'' ''aggTrades'' ''2024-08-01'' None)
        (overwrite_existing example_config) (files empty_world)"
    by (simp add: is_download_needed_def empty_world_def)
  have n: "0 < retry_attempts example_config"
    by (simp add: example_config_def)
  have answer: "server not_found_env
      ''https://host/aggTrades/BTCUSDT/BTCUSDT-aggTrades-2024-08-01.zip''
      (requests_made empty_world) = Response 404 (Complete ''no such key'')"
    by (simp add: not_found_env_def example_env_def)
  have zero: "requests_made empty_world = 0" and nofiles: "files empty_world = Map.empty"
    by (simp_all add: requests_made_def empty_world_def)
  note t = not_found_no_retry [OF url needed n answer]
  have c1: "\<not> fst (download_file example_config not_found_env ''BTCUSDT'' ''aggTrades''
        ''2024-08-01'' None empty_world)"
    using t by simp
  have c2: "requests_made (snd (download_file example_config not_found_env ''BTCUSDT''
        ''aggTrades'' ''2024-08-01'' None empty_world)) = 1"
    using t zero by simp
  have c3: "files (snd (download_file example_config not_found_env ''BTCUSDT'' ''aggTrades''
        ''2024-08-01'' None empty_world)) = Map.empty"
    using t nofiles by simp
  from url needed n answer c1 c2 c3 show ?thesis by blast
qed

section \<open>Extraction and removal of the archive\<close>

lemma extractall_keeps: "fs p \<noteq> None \<Longrightarrow> snd (extractall dir ms fs) p \<noteq> None"
  by (induction dir ms fs rule: extractall.induct) simp_all

lemma extract_zip_file_of_written:
  assumes "files w zip_path = Some \<lparr>data = bytes, readable = True\<rparr>"
  shows "fst (extract_zip_file e zip_path dir w) = archive_extracts e bytes dir (files w)
         \<and> files (snd (extract_zip_file e zip_path dir w))
           = (case unzip e bytes of
                None \<Rightarrow> files w
              | Some ms \<Rightarrow> snd (extractall dir ms (files w)))"
  using assms
  by (auto simp: extract_zip_file_def archive_extracts_def split: option.split prod.split)

lemma extract_zip_file_keeps:
  "files w p \<noteq> None \<Longrightarrow> files (snd (extract_zip_file e zip_path dir w)) p \<noteq> None"
proof -
  assume present: "files w p \<noteq> None"
  have "files (snd (case extractall dir ms (files w) of
          (None, fs') \<Rightarrow> (True, w\<lparr>files := fs'\<rparr>)
        | (Some bad_zip, fs') \<Rightarrow>
            (False, emit [if bad_zip then Log_corrupted zip_path else Log_extract_error zip_path]
               (w\<lparr>files := fs'\<rparr>)))) p \<noteq> None" for ms
    using extractall_keeps [of "files w" p dir ms] present
    by (cases "extractall dir ms (files w)") (simp split: option.split)
  with present show ?thesis
    by (simp add: extract_zip_file_def split: option.split)
qed

lemma attempt_body_complete:
  assumes "server e url (requests_made w) = Response status (Complete bytes)"
    and "status \<noteq> 404" and "\<not> raise_for_status status"
  shows "attempt_body cfg e url zip_path dir zf cf k w
     = after_download cfg e zip_path dir zf cf
         (emit [Log_downloaded (length bytes) zf]
            (write_file zip_path bytes
               (emit [Log_downloading (k + 1) (retry_attempts cfg) url,
                      Sleep_rate_limit (rate_limit_delay cfg), Http_get url] w)))"
  using assms by (simp add: attempt_body_def)

text \<open>
  C4, as stated, fails in the part that the extracted csv file is absent. A csv file that
  was on disk before (here a header of 2 bytes, so that the download is needed) is still
  there after the failed extraction of a corrupt archive; and an archive whose csv member
  is damaged leaves the bytes written before the error at the csv path.
\<close>

theorem extraction_failure_csv_counterexample:
  "\<not> fst (download_file example_config corrupt_env ''BTCUSDT'' ''aggTrades'' ''2024-08-01'' None
        (world_with_file ''./data/aggTrades/BTCUSDT/BTCUSDT-aggTrades-2024-08-01.csv'' ''id''))
   \<and> files (snd (download_file example_config corrupt_env ''BTCUSDT'' ''aggTrades''
        ''2024-08-01'' None
        (world_with_file ''./data/aggTrades/BTCUSDT/BTCUSDT-aggTrades-2024-08-01.csv'' ''id'')))
        ''./data/aggTrades/BTCUSDT/BTCUSDT-aggTrades-2024-08-01.csv''
       = Some \<lparr>data = ''id'', readable = True\<rparr>
   \<and> \<not> fst (download_file example_config damaged_env ''BTCUSDT'' ''aggTrades'' ''2024-08-01''
        None empty_world)
   \<and> files (snd (download_file example_config damaged_env ''BTCUSDT'' ''aggTrades''
        ''2024-08-01'' None empty_world))
        ''./data/aggTrades/BTCUSDT/BTCUSDT-aggTrades-2024-08-01.csv''
       = Some \<lparr>data = ''agg_trade_id,pr'', readable = True\<rparr>"
  by (simp add: path_defs run_defs example_defs corrupt_env_def damaged_env_def
      world_with_file_def upt_conv_Cons)

lemma attempt_body_transient_files:
  assumes "transient_failure (server e url (requests_made w))"
  shows "\<forall>p. p \<noteq> zip_path \<longrightarrow>
           files (snd (attempt_body cfg e url zip_path dir zf cf k w)) p = files w p"
proof (cases "server e url (requests_made w)")
  case Transport_error
  then show ?thesis
    by (simp add: attempt_body_def request_failed_def Let_def)
next
  case (Response status content)
  with assms show ?thesis
    by (cases content) (simp_all add: attempt_body_def request_failed_def Let_def)
qed

text \<open>
  After \<open>k\<close> attempts that failed transiently the loop stands at attempt \<open>k\<close>, with
  \<open>k\<close> more requests in the trace and no file touched but the archive.
\<close>

lemma attempt_loop_after_failures:
  assumes "k < retry_attempts cfg"
    and "\<forall>j < k. transient_failure (server e url (requests_made w + j))"
  shows "\<exists>wk. attempt_loop cfg e url zip_path dir zf cf [0..<retry_attempts cfg] w
             = attempt_loop cfg e url zip_path dir zf cf [k..<retry_attempts cfg] wk
           \<and> requests_made wk = requests_made w + k
           \<and> (\<forall>p. p \<noteq> zip_path \<longrightarrow> files wk p = files w p)"
  using assms
proof (induction k)
  case 0
  show ?case by (rule exI [of _ w]) simp
next
  case (Suc k)
  from Suc.prems have less: "k < retry_attempts cfg"
    and before: "\<forall>j < k. transient_failure (server e url (requests_made w + j))"
    and at_k: "transient_failure (server e url (requests_made w + k))"
    by simp_all
  from Suc.IH [OF less before] obtain wk where
    loop: "attempt_loop cfg e url zip_path dir zf cf [0..<retry_attempts cfg] w
       = attempt_loop cfg e url zip_path dir zf cf [k..<retry_attempts cfg] wk"
    and req: "requests_made wk = requests_made w + k"
    and same: "\<forall>p. p \<noteq> zip_path \<longrightarrow> files wk p = files w p"
    by blast
  obtain r w' where body: "attempt_body cfg e url zip_path dir zf cf k wk = (r, w')"
    by (cases "attempt_body cfg e url zip_path dir zf cf k wk")
  have tr: "transient_failure (server e url (requests_made wk))"
    using at_k req by simp
  have r: "r = Next_attempt"
    using attempt_body_transient [OF tr, of cfg zip_path dir zf cf k] body Suc.prems(1)
    by simp
  have req': "requests_made w' = requests_made w + Suc k"
    using attempt_body_requests [of cfg e url zip_path dir zf cf k wk] body req by simp
  have same': "\<forall>p. p \<noteq> zip_path \<longrightarrow> files w' p = files w p"
    using attempt_body_transient_files [OF tr, of zip_path cfg dir zf cf k] body same by simp
  have "[k..<retry_attempts cfg] = k # [Suc k..<retry_attempts cfg]"
    using less by (simp add: upt_conv_Cons)
  with loop body r have
    "attempt_loop cfg e url zip_path dir zf cf [0..<retry_attempts cfg] w
       = attempt_loop cfg e url zip_path dir zf cf [Suc k..<retry_attempts cfg] w'"
    by simp
  with req' same' show ?case by blast
qed

lemma after_download_returns:
  "\<exists>b w'. after_download cfg e zip_path dir zf cf w = (Return b, w')"
  by (cases "extract_zip_file e zip_path dir w")
    (auto simp: after_download_def split: bool.splits)

text \<open>
  A run whose attempt \<open>k\<close>, after \<open>k\<close> transient failures, receives a complete body
  with a status that is no error: the bytes are written over the archive file, and the
  outcome is that of what follows the download.
\<close>

lemma download_file_complete_body:
  assumes "build_download_url (base_url cfg) dt smb d iv = Inr url"
    and "is_download_needed (csv_path_of cfg smb dt d iv) (overwrite_existing cfg) (files w)"
    and "k < retry_attempts cfg"
    and "\<forall>j < k. transient_failure (server e url (requests_made w + j))"
    and "server e url (requests_made w + k) = Response status (Complete bytes)"
    and "status \<noteq> 404" and "\<not> raise_for_status status"
  shows "\<exists>w2 b w'.
           files w2 = (files w)(zip_path_of cfg smb dt d iv \<mapsto> \<lparr>data = bytes, readable = True\<rparr>)
           \<and> requests_made w2 = requests_made w + k + 1
           \<and> after_download cfg e (zip_path_of cfg smb dt d iv) (file_dir_of cfg smb dt iv)
                (get_output_filename smb dt d iv ''zip'')
                (get_output_filename smb dt d iv ''csv'') w2 = (Return b, w')
           \<and> download_file cfg e smb dt d iv w = (b, w')"
proof -
  let ?zp = "zip_path_of cfg smb dt d iv" and ?dir = "file_dir_of cfg smb dt iv"
  let ?zf = "get_output_filename smb dt d iv ''zip''"
  let ?cf = "get_output_filename smb dt d iv ''csv''"
  from attempt_loop_after_failures [OF assms(3,4), of ?zp ?dir ?zf ?cf] obtain wk where
    loop: "attempt_loop cfg e url ?zp ?dir ?zf ?cf [0..<retry_attempts cfg] w
       = attempt_loop cfg e url ?zp ?dir ?zf ?cf [k..<retry_attempts cfg] wk"
    and req: "requests_made wk = requests_made w + k"
    and same: "\<forall>p. p \<noteq> ?zp \<longrightarrow> files wk p = files w p"
    by blast
  let ?w2 = "emit [Log_downloaded (length bytes) ?zf]
      (write_file ?zp bytes
         (emit [Log_downloading (k + 1) (retry_attempts cfg) url,
                Sleep_rate_limit (rate_limit_delay cfg), Http_get url] wk))"
  have resp: "server e url (requests_made wk) = Response status (Complete bytes)"
    using assms(5) req by simp
  have body: "attempt_body cfg e url ?zp ?dir ?zf ?cf k wk
      = after_download cfg e ?zp ?dir ?zf ?cf ?w2"
    by (rule attempt_body_complete [OF resp assms(6,7)])
  obtain b w' where after: "after_download cfg e ?zp ?dir ?zf ?cf ?w2 = (Return b, w')"
    using after_download_returns [of cfg e ?zp ?dir ?zf ?cf ?w2] by blast
  have range: "[k..<retry_attempts cfg] = k # [Suc k..<retry_attempts cfg]"
    using assms(3) by (simp add: upt_conv_Cons)
  have result: "download_file cfg e smb dt d iv w = (b, w')"
    using assms(1,2) loop body after range by (simp add: download_file_def)
  have fs2: "files ?w2 = (files w)(?zp \<mapsto> \<lparr>data = bytes, readable = True\<rparr>)"
    using same by (auto simp: fun_eq_iff)
  have req2: "requests_made ?w2 = requests_made w + k + 1"
    using req by simp
  from fs2 req2 after result show ?thesis by blast
qed

text \<open>
  C4, amended: with auto-extract enabled, when an attempt of the run, the earlier ones
  having failed transiently, receives a complete body with a status that is no error and
  the extraction of these bytes fails, be it that they are no archive or that a member
  raises, \<^verbatim>\<open>download_file\<close> returns failure without a further request; the archive
  file is on disk afterwards, whatever delete-zip says; no file that was there before has
  been removed, a csv file among them; and when the bytes are no archive at all, the
  archive file is the only file created or changed, so that a csv file absent before is
  absent after.
\<close>

theorem extraction_failure_fails:
  assumes "build_download_url (base_url cfg) dt smb d iv = Inr url"
    and "is_download_needed (csv_path_of cfg smb dt d iv) (overwrite_existing cfg) (files w)"
    and "k < retry_attempts cfg"
    and "\<forall>j < k. transient_failure (server e url (requests_made w + j))"
    and "server e url (requests_made w + k) = Response status (Complete bytes)"
    and "status \<noteq> 404" and "\<not> raise_for_status status"
    and "auto_extract cfg"
    and "\<not> archive_extracts e bytes (file_dir_of cfg smb dt iv)
           ((files w)(zip_path_of cfg smb dt d iv \<mapsto> \<lparr>data = bytes, readable = True\<rparr>))"
  shows
    "\<not> fst (download_file cfg e smb dt d iv w)
     \<and> requests_made (snd (download_file cfg e smb dt d iv w)) = requests_made w + k + 1
     \<and> files (snd (download_file cfg e smb dt d iv w)) (zip_path_of cfg smb dt d iv) \<noteq> None
     \<and> (\<forall>p. files w p \<noteq> None \<longrightarrow> files (snd (download_file cfg e smb dt d iv w)) p \<noteq> None)
     \<and> (unzip e bytes = None \<longrightarrow>
          files (snd (download_file cfg e smb dt d iv w))
            = (files w)(zip_path_of cfg smb dt d iv \<mapsto> \<lparr>data = bytes, readable = True\<rparr>))"
proof -
  let ?zp = "zip_path_of cfg smb dt d iv" and ?dir = "file_dir_of cfg smb dt iv"
  let ?zf = "get_output_filename smb dt d iv ''zip''"
  let ?cf = "get_output_filename smb dt d iv ''csv''"
  from download_file_complete_body [OF assms(1-7)] obtain w2 b w' where
    fs2: "files w2 = (files w)(?zp \<mapsto> \<lparr>data = bytes, readable = True\<rparr>)"
    and req2: "requests_made w2 = requests_made w + k + 1"
    and after: "after_download cfg e ?zp ?dir ?zf ?cf w2 = (Return b, w')"
    and result: "download_file cfg e smb dt d iv w = (b, w')"
    by blast
  have written: "files w2 ?zp = Some \<lparr>data = bytes, readable = True\<rparr>"
    by (simp add: fs2)
  obtain ok w3 where ex: "extract_zip_file e ?zp ?dir w2 = (ok, w3)"
    by (cases "extract_zip_file e ?zp ?dir w2")
  have "\<not> ok"
    using extract_zip_file_of_written [OF written, of e ?dir] ex assms(9) fs2 by simp
  have fs3: "files w3 = (case unzip e bytes of
      None \<Rightarrow> files w2 | Some ms \<Rightarrow> snd (extractall ?dir ms (files w2)))"
    using extract_zip_file_of_written [OF written, of e ?dir] ex by simp
  have keep: "files w2 p \<noteq> None \<Longrightarrow> files w3 p \<noteq> None" for p
    using extract_zip_file_keeps [of w2 p e ?zp ?dir] ex by simp
  have req3: "requests_made w3 = requests_made w + k + 1"
  proof -
    have "requests_made (snd (extract_zip_file e ?zp ?dir w2)) = requests_made w2"
      by (rule extract_zip_file_requests)
    then show ?thesis unfolding ex using req2 by simp
  qed
  have "after_download cfg e ?zp ?dir ?zf ?cf w2
      = (Return False, emit [Log_extract_failed ?zf] w3)"
    using assms(8) ex \<open>\<not> ok\<close> by (simp add: after_download_def)
  with after result have r: "download_file cfg e smb dt d iv w
      = (False, emit [Log_extract_failed ?zf] w3)"
    by simp
  have kept: "\<forall>p. files w p \<noteq> None \<longrightarrow> files w3 p \<noteq> None"
    using keep fs2 by simp
  show ?thesis
    unfolding r using keep [of ?zp] written req3 fs3 fs2 kept by simp
qed

theorem extraction_failure_fails_witness:
  "build_download_url (base_url example_config) ''aggTrades'' ''BTCUSDT'' ''2024-08-01'' None
     = Inr ''https://host/aggTrades/BTCUSDT/BTCUSDT-aggTrades-2024-08-01.zip''
   \<and> is_download_needed
        (csv_path_of example_config ''BTCUSDT'' ''aggTrades'' ''2024-08-01'' None)
        (overwrite_existing example_config)
        (files (world_with_file ''./data/aggTrades/BTCUSDT/notes.txt'' ''kept''))
   \<and> 1 < retry_attempts example_config
   \<and> transient_failure (server corrupt_retry_env
        ''https://host/aggTrades/BTCUSDT/BTCUSDT-aggTrades-2024-08-01.zip'' 0)
   \<and> server corrupt_retry_env
        ''https://host/aggTrades/BTCUSDT/BTCUSDT-aggTrades-2024-08-01.zip'' 1
       = Response 200 (Complete ''garbage'')
   \<and> \<not> raise_for_status 200
   \<and> auto_extract example_config \<and> delete_zip example_config
   \<and> unzip corrupt_retry_env ''garbage'' = None
   \<and> \<not> fst (download_file example_config corrupt_retry_env ''BTCUSDT'' ''aggTrades''
        ''2024-08-01'' None (world_with_file ''./data/aggTrades/BTCUSDT/notes.txt'' ''kept''))
   \<and> requests_made (snd (download_file example_config corrupt_retry_env ''BTCUSDT''
        ''aggTrades'' ''2024-08-01'' None
        (world_with_file ''./data/aggTrades/BTCUSDT/notes.txt'' ''kept''))) = 2
   \<and> files (snd (download_file example_config corrupt_retry_env ''BTCUSDT'' ''aggTrades''
        ''2024-08-01'' None (world_with_file ''./data/aggTrades/BTCUSDT/notes.txt'' ''kept'')))
        ''./data/aggTrades/BTCUSDT/BTCUSDT-aggTrades-2024-08-01.zip''
       = Some \<lparr>data = ''garbage'', readable = True\<rparr>
   \<and> files (snd (download_file example_config corrupt_retry_env ''BTCUSDT'' ''aggTrades''
        ''2024-08-01'' None (world_with_file ''./data/aggTrades/BTCUSDT/notes.txt'' ''kept'')))
        ''./data/aggTrades/BTCUSDT/notes.txt''
       = Some \<lparr>data = ''kept'', readable = True\<rparr>
   \<and> files (snd (download_file example_config corrupt_retry_env ''BTCUSDT'' ''aggTrades''
        ''2024-08-01'' None (world_with_file ''./data/aggTrades/BTCUSDT/notes.txt'' ''kept'')))
        ''./data/aggTrades/BTCUSDT/BTCUSDT-aggTrades-2024-08-01.csv'' = None"
proof -
  let ?w = "world_with_file ''./data/aggTrades/BTCUSDT/notes.txt'' ''kept''"
  let ?r = "download_file example_config corrupt_retry_env ''BTCUSDT'' ''aggTrades''
      ''2024-08-01'' None ?w"
  have url: "build_download_url (base_url example_config) ''aggTrades'' ''BTCUSDT''
      ''2024-08-01'' None
     = Inr ''https://host/aggTrades/BTCUSDT/BTCUSDT-aggTrades-2024-08-01.zip''"
    by (simp add: path_defs example_config_def)
  have needed: "is_download_needed
        (csv_path_of example_config ''BTCUSDT'' ''aggTrades'' ''2024-08-01'' None)
        (overwrite_existing example_config) (files ?w)"
    by (simp add: is_download_needed_def world_with_file_def path_defs example_config_def)
  have n: "1 < retry_attempts example_config"
    and ae: "auto_extract example_config" and dz: "delete_zip example_config"
    by (simp_all add: example_config_def)
  have zero: "requests_made ?w = 0"
    by (simp add: requests_made_def world_with_file_def)
  have first: "transient_failure (server corrupt_retry_env
        ''https://host/aggTrades/BTCUSDT/BTCUSDT-aggTrades-2024-08-01.zip'' 0)"
    by (simp add: corrupt_retry_env_def example_env_def)
  then have before: "\<forall>j < 1. transient_failure (server corrupt_retry_env
        ''https://host/aggTrades/BTCUSDT/BTCUSDT-aggTrades-2024-08-01.zip''
        (requests_made ?w + j))"
    by (simp add: zero)
  have second: "server corrupt_retry_env
        ''https://host/aggTrades/BTCUSDT/BTCUSDT-aggTrades-2024-08-01.zip'' 1
       = Response 200 (Complete ''garbage'')"
    by (simp add: corrupt_retry_env_def example_env_def)
  then have answer: "server corrupt_retry_env
        ''https://host/aggTrades/BTCUSDT/BTCUSDT-aggTrades-2024-08-01.zip''
        (requests_made ?w + 1) = Response 200 (Complete ''garbage'')"
    by (simp add: zero)
  have s1: "(200::nat) \<noteq> 404" and s2: "\<not> raise_for_status 200"
    by (simp_all add: raise_for_status_def)
  have nozip: "unzip corrupt_retry_env ''garbage'' = None"
    by (simp add: corrupt_retry_env_def example_env_def example_unzip_def)
  then have fails: "\<not> archive_extracts corrupt_retry_env ''garbage''
      (file_dir_of example_config ''BTCUSDT'' ''aggTrades'' None)
      ((files ?w)(zip_path_of example_config ''BTCUSDT'' ''aggTrades'' ''2024-08-01''
          None \<mapsto> \<lparr>data = ''garbage'', readable = True\<rparr>))"
    by (simp add: archive_extracts_def)
  have zp: "zip_path_of example_config ''BTCUSDT'' ''aggTrades'' ''2024-08-01'' None
     = ''./data/aggTrades/BTCUSDT/BTCUSDT-aggTrades-2024-08-01.zip''"
    by (simp add: path_defs example_config_def)
  note t = extraction_failure_fails [OF url needed n before answer s1 s2 ae fails]
  have c1: "\<not> fst ?r"
    using t by blast
  have "requests_made (snd ?r) = requests_made ?w + 1 + 1"
    using t by blast
  then have c2: "requests_made (snd ?r) = 2"
    by (simp add: zero)
  have fs: "files (snd ?r)
     = (files ?w)(''./data/aggTrades/BTCUSDT/BTCUSDT-aggTrades-2024-08-01.zip''
         \<mapsto> \<lparr>data = ''garbage'', readable = True\<rparr>)"
    using t nozip unfolding zp by blast
  have c3: "files (snd ?r) ''./data/aggTrades/BTCUSDT/BTCUSDT-aggTrades-2024-08-01.zip''
       = Some \<lparr>data = ''garbage'', readable = True\<rparr>"
    and c4: "files (snd ?r) ''./data/aggTrades/BTCUSDT/notes.txt''
       = Some \<lparr>data = ''kept'', readable = True\<rparr>"
    and c5: "files (snd ?r) ''./data/aggTrades/BTCUSDT/BTCUSDT-aggTrades-2024-08-01.csv'' = None"
    unfolding fs by (simp_all add: world_with_file_def)
  from url needed n first second s2 ae dz nozip c1 c2 c3 c4 c5 show ?thesis by blast
qed

text \<open>
  C5, as stated, fails: \<^verbatim>\<open>os.remove\<close> stands inside the \<^verbatim>\<open>try\<close> of the attempt, and
  its \<^verbatim>\<open>OSError\<close> is caught by \<^verbatim>\<open>except Exception\<close>, which returns
  \<^verbatim>\<open>False\<close>. Here the archive was extracted, the csv file is on disk, and the outcome
  is failure because the archive could not be removed.
\<close>

theorem removal_failure_counterexample:
  "delete_zip example_config
   \<and> remove_fails locked_env ''./data/aggTrades/BTCUSDT/BTCUSDT-aggTrades-2024-08-01.zip''
   \<and> files (snd (download_file example_config locked_env ''BTCUSDT'' ''aggTrades''
        ''2024-08-01'' None empty_world))
        ''./data/aggTrades/BTCUSDT/BTCUSDT-aggTrades-2024-08-01.csv''
       = Some \<lparr>data = example_csv, readable = True\<rparr>
   \<and> \<not> fst (download_file example_config locked_env ''BTCUSDT'' ''aggTrades'' ''2024-08-01''
        None empty_world)"
  by (simp add: path_defs run_defs example_config_def example_env_def empty_world_def
      example_unzip_def locked_env_def upt_conv_Cons)

text \<open>
  C5, amended: when an attempt of the run, the earlier ones having failed transiently,
  receives the archive, the extraction succeeds, delete-zip is enabled and the removal of
  the archive fails, the failure is logged as an unexpected error and
  \<^verbatim>\<open>download_file\<close> returns failure, without a further request; the extracted files
  and the archive are on disk.
\<close>

theorem removal_failure_fails:
  assumes "build_download_url (base_url cfg) dt smb d iv = Inr url"
    and "is_download_needed (csv_path_of cfg smb dt d iv) (overwrite_existing cfg) (files w)"
    and "k < retry_attempts cfg"
    and "\<forall>j < k. transient_failure (server e url (requests_made w + j))"
    and "server e url (requests_made w + k) = Response status (Complete bytes)"
    and "status \<noteq> 404" and "\<not> raise_for_status status"
    and "auto_extract cfg" and "delete_zip cfg"
    and "archive_extracts e bytes (file_dir_of cfg smb dt iv)
           ((files w)(zip_path_of cfg smb dt d iv \<mapsto> \<lparr>data = bytes, readable = True\<rparr>))"
    and "remove_fails e (zip_path_of cfg smb dt d iv)"
  shows
    "\<not> fst (download_file cfg e smb dt d iv w)
     \<and> requests_made (snd (download_file cfg e smb dt d iv w)) = requests_made w + k + 1
     \<and> last (trace (snd (download_file cfg e smb dt d iv w))) = Log_unexpected
     \<and> files (snd (download_file cfg e smb dt d iv w)) (zip_path_of cfg smb dt d iv) \<noteq> None
     \<and> (\<exists>ms. unzip e bytes = Some ms
          \<and> files (snd (download_file cfg e smb dt d iv w))
            = snd (extractall (file_dir_of cfg smb dt iv) ms
                ((files w)(zip_path_of cfg smb dt d iv \<mapsto> \<lparr>data = bytes, readable = True\<rparr>))))"
proof -
  let ?zp = "zip_path_of cfg smb dt d iv" and ?dir = "file_dir_of cfg smb dt iv"
  let ?zf = "get_output_filename smb dt d iv ''zip''"
  let ?cf = "get_output_filename smb dt d iv ''csv''"
  from download_file_complete_body [OF assms(1-7)] obtain w2 b w' where
    fs2: "files w2 = (files w)(?zp \<mapsto> \<lparr>data = bytes, readable = True\<rparr>)"
    and req2: "requests_made w2 = requests_made w + k + 1"
    and after: "after_download cfg e ?zp ?dir ?zf ?cf w2 = (Return b, w')"
    and result: "download_file cfg e smb dt d iv w = (b, w')"
    by blast
  have written: "files w2 ?zp = Some \<lparr>data = bytes, readable = True\<rparr>"
    by (simp add: fs2)
  obtain ms where ms: "unzip e bytes = Some ms"
    using assms(10) by (auto simp: archive_extracts_def split: option.splits)
  obtain ok w3 where ex: "extract_zip_file e ?zp ?dir w2 = (ok, w3)"
    by (cases "extract_zip_file e ?zp ?dir w2")
  have ok: "ok"
    using extract_zip_file_of_written [OF written, of e ?dir] ex assms(10) fs2 by simp
  have fs3: "files w3
      = snd (extractall ?dir ms ((files w)(?zp \<mapsto> \<lparr>data = bytes, readable = True\<rparr>)))"
    using extract_zip_file_of_written [OF written, of e ?dir] ex ms fs2 by simp
  have keep: "files w3 ?zp \<noteq> None"
    using extract_zip_file_keeps [of w2 ?zp e ?zp ?dir] written ex by simp
  have req3: "requests_made w3 = requests_made w + k + 1"
  proof -
    have "requests_made (snd (extract_zip_file e ?zp ?dir w2)) = requests_made w2"
      by (rule extract_zip_file_requests)
    then show ?thesis unfolding ex using req2 by simp
  qed
  have "after_download cfg e ?zp ?dir ?zf ?cf w2
      = (Return False, emit [Log_extracted ?cf, Log_unexpected] w3)"
    using assms(8,9,11) ex ok by (simp add: after_download_def)
  with after result have r: "download_file cfg e smb dt d iv w
      = (False, emit [Log_extracted ?cf, Log_unexpected] w3)"
    by simp
  show ?thesis
    unfolding r using keep req3 fs3 ms by simp
qed

theorem removal_failure_fails_witness:
  "build_download_url (base_url example_config) ''aggTrades'' ''BTCUSDT'' ''2024-08-01'' None
     = Inr ''https://host/aggTrades/BTCUSDT/BTCUSDT-aggTrades-2024-08-01.zip''
   \<and> is_download_needed
        (csv_path_of example_config ''BTCUSDT'' ''aggTrades'' ''2024-08-01'' None)
        (overwrite_existing example_config) (files empty_world)
   \<and> 1 < retry_attempts example_config
   \<and> transient_failure (server locked_retry_env
        ''https://host/aggTrades/BTCUSDT/BTCUSDT-aggTrades-2024-08-01.zip'' 0)
   \<and> server locked_retry_env
        ''https://host/aggTrades/BTCUSDT/BTCUSDT-aggTrades-2024-08-01.zip'' 1
       = Response 200 (Complete ''PK'')
   \<and> \<not> raise_for_status 200
   \<and> auto_extract example_config \<and> delete_zip example_config
   \<and> archive_extracts locked_retry_env ''PK''
        (file_dir_of example_config ''BTCUSDT'' ''aggTrades'' None)
        ((files empty_world)(zip_path_of example_config ''BTCUSDT'' ''aggTrades''
           ''2024-08-01'' None \<mapsto> \<lparr>data = ''PK'', readable = True\<rparr>))
   \<and> remove_fails locked_retry_env
        (zip_path_of example_config ''BTCUSDT'' ''aggTrades'' ''2024-08-01'' None)
   \<and> \<not> fst (download_file example_config locked_retry_env ''BTCUSDT'' ''aggTrades''
        ''2024-08-01'' None empty_world)
   \<and> requests_made (snd (download_file example_config locked_retry_env ''BTCUSDT''
        ''aggTrades'' ''2024-08-01'' None empty_world)) = 2
   \<and> last (trace (snd (download_file example_config locked_retry_env ''BTCUSDT'' ''aggTrades''
        ''2024-08-01'' None empty_world))) = Log_unexpected"
proof -
  let ?r = "download_file example_config locked_retry_env ''BTCUSDT'' ''aggTrades''
      ''2024-08-01'' None empty_world"
  have url: "build_download_url (base_url example_config) ''aggTrades'' ''BTCUSDT''
      ''2024-08-01'' None
     = Inr ''https://host/aggTrades/BTCUSDT/BTCUSDT-aggTrades-2024-08-01.zip''"
    by (simp add: path_defs example_config_def)
  have needed: "is_download_needed
        (csv_path_of example_config ''BTCUSDT'' ''aggTrades'' ''2024-08-01'' None)
        (overwrite_existing example_config) (files empty_world)"
    by (simp add: is_download_needed_def empty_world_def)
  have n: "1 < retry_attempts example_config"
    and ae: "auto_extract example_config" and dz: "delete_zip example_config"
    by (simp_all add: example_config_def)
  have zero: "requests_made empty_world = 0"
    by (simp add: requests_made_def empty_world_def)
  have first: "transient_failure (server locked_retry_env
        ''https://host/aggTrades/BTCUSDT/BTCUSDT-aggTrades-2024-08-01.zip'' 0)"
    by (simp add: locked_retry_env_def retry_env_def example_env_def)
  then have before: "\<forall>j < 1. transient_failure (server locked_retry_env
        ''https://host/aggTrades/BTCUSDT/BTCUSDT-aggTrades-2024-08-01.zip''
        (requests_made empty_world + j))"
    by (simp add: zero)
  have second: "server locked_retry_env
        ''https://host/aggTrades/BTCUSDT/BTCUSDT-aggTrades-2024-08-01.zip'' 1
       = Response 200 (Complete ''PK'')"
    by (simp add: locked_retry_env_def retry_env_def example_env_def)
  then have answer: "server locked_retry_env
        ''https://host/aggTrades/BTCUSDT/BTCUSDT-aggTrades-2024-08-01.zip''
        (requests_made empty_world + 1) = Response 200 (Complete ''PK'')"
    by (simp add: zero)
  have s1: "(200::nat) \<noteq> 404" and s2: "\<not> raise_for_status 200"
    by (simp_all add: raise_for_status_def)
  have extracts: "archive_extracts locked_retry_env ''PK''
        (file_dir_of example_config ''BTCUSDT'' ''aggTrades'' None)
        ((files empty_world)(zip_path_of example_config ''BTCUSDT'' ''aggTrades''
           ''2024-08-01'' None \<mapsto> \<lparr>data = ''PK'', readable = True\<rparr>))"
    by (simp add: archive_extracts_def locked_retry_env_def retry_env_def example_env_def
        example_unzip_def)
  have locked: "remove_fails locked_retry_env
        (zip_path_of example_config ''BTCUSDT'' ''aggTrades'' ''2024-08-01'' None)"
    by (simp add: locked_retry_env_def)
  note t = removal_failure_fails [OF url needed n before answer s1 s2 ae dz extracts locked]
  from t have c1: "\<not> fst ?r"
    by blast
  from t have "requests_made (snd ?r) = requests_made empty_world + 1 + 1"
    by blast
  then have c2: "requests_made (snd ?r) = 2"
    by (simp add: zero)
  from t have c3: "last (trace (snd ?r)) = Log_unexpected"
    by blast
  from url needed n first second s2 ae dz extracts locked c1 c2 c3 show ?thesis by blast
qed

section \<open>Running a task twice\<close>






section \<open>A task that expands to nothing\<close>




section \<open>The generated sequence\<close>



























section \<open>Configurations that generate no task\<close>














end
